theory Spec2Isabelle
  imports Complex_Main
begin

section \<open>Values of the host language\<close>

text \<open>
  Page numbers and numeric row identifiers are JavaScript numbers that the program only
  ever uses as integers; they are modelled as \<^typ>\<open>int\<close>. The model is exact for the
  safe integers, those of magnitude below \<open>2^53\<close>: there every integer is a number of the
  host language, adding or subtracting one is exact, and a template literal prints
  the number in full decimal, with a leading minus sign when it is negative. Beyond that
  range the host language rounds sums, and it prints the shortest digits that read back
  as the number, padded with zeros, and in exponent form from \<open>10^21\<close>. Every property
  below that depends on a sum, a difference or the printing of a number is therefore
  stated for safe integers.
\<close>

definition isSafeInteger :: "int \<Rightarrow> bool" where
  "isSafeInteger n = (\<bar>n\<bar> < 2 ^ 53)"

fun digits :: "nat \<Rightarrow> string" where
  "digits n =
     (if n < 10 then [''0123456789'' ! n]
      else digits (n div 10) @ [''0123456789'' ! (n mod 10)])"

declare digits.simps [simp del]

definition numberToString :: "int \<Rightarrow> string" where
  "numberToString n = (if n < 0 then CHR ''-'' # digits (nat (- n)) else digits (nat n))"

text \<open>
  A row is any object with an \<open>id\<close> field that is a string or a number
  (\<open>T extends { id: string | number }\<close>): an extensible record whose first field is the
  identifier.
\<close>

datatype RowId = IdNum int | IdStr string

fun idToString :: "RowId \<Rightarrow> string" where
  "idToString (IdNum n) = numberToString n"
| "idToString (IdStr s) = s"

text \<open>An identifier whose printing the model gets right: any string, and any number
  that is a safe integer.\<close>

fun safeId :: "RowId \<Rightarrow> bool" where
  "safeId (IdNum n) = isSafeInteger n"
| "safeId (IdStr s) = True"

record RowBase =
  row_id :: RowId

section \<open>Callbacks, controls and rendered nodes\<close>

text \<open>
  The component receives callbacks from its caller and obtains \<open>navigate\<close> from the
  router. An event handler of the component is modelled by the list of calls it makes, in
  order; each call records the function called and its argument.
\<close>

datatype 'r Invocation =
    Call_onPageChange int
  | Call_onEdit 'r
  | Call_onDelete 'r
  | Call_onSearch string
  | Call_navigate string

record 'r Button =
  caption :: string
  onClick :: "'r Invocation list"
  disabled :: bool

text \<open>
  The confirmation dialog of a row: its title, its description, the label of the cancel
  control, and the label and click handler of the affirmative control.
\<close>

record 'r AlertDialog =
  dialogTitle :: string
  dialogDescription :: string
  cancelLabel :: string
  actionLabel :: string
  action_onClick :: "'r Invocation list"

text \<open>
  What a table cell can hold: nothing, a literal string, a value of the caller's
  (\<open>'v\<close>, produced by an accessor), or the \<open>div\<close> of the actions column with its optional
  edit button and optional delete dialog.
\<close>

datatype ('r, 'v) Node =
    Empty
  | Txt string
  | Content 'v
  | ActionsDiv "'r Button option" "'r AlertDialog option"

section \<open>The table library\<close>

text \<open>
  The component builds its table with \<open>useReactTable\<close> of the table library, which is a
  dependency and not part of the repository. Its row pipeline is modelled the way the
  library documents it: the core row model wraps each element of \<open>data\<close>, in order, in a
  row that knows its index and its original record; the sorted row model is the core row
  model unless a \<open>getSortedRowModel\<close> factory was passed in the options and the sorting
  state is not empty; the paginated row model is the sorted one unless a
  \<open>getPaginationRowModel\<close> factory was passed and \<open>manualPagination\<close> is off, in which
  case it is the slice of the current page. \<open>getRowModel\<close> is the end of the pipeline.
  The sorting function itself is a parameter of the model: nothing is assumed about it.

  A column's header is a string or a renderer of the caller's. A renderer is called with
  the header's context, through which it reads the sorting state and reaches the
  library's sorting interface (\<open>column.toggleSorting\<close> and the like). Every entry of that
  interface ends in \<open>table.setSorting\<close> with an updater of the sorting state, and
  \<open>table.setSorting\<close> hands the updater to the \<open>onSortingChange\<close> option. Which updater
  the library computes is a parameter of the model.
\<close>

record ColumnSort =
  sort_id :: string
  desc :: bool

type_synonym SortingState = "ColumnSort list"

record 'r Row =
  index :: nat
  original :: 'r

datatype 'v HeaderDef = HeaderString string | HeaderRenderer "SortingState \<Rightarrow> 'v"

record ('r, 'v) ColumnDef =
  colId :: string
  header :: "'v HeaderDef"
  accessorFn :: "('r \<Rightarrow> 'v) option"
  cell :: "('r Row \<Rightarrow> ('r, 'v) Node) option"

record ('r, 'v, 'st) TableOptions =
  tbl_data :: "'r list"
  tbl_columns :: "('r, 'v) ColumnDef list"
  tbl_sorting :: SortingState
  tbl_onSortingChange :: "((SortingState \<Rightarrow> SortingState) \<Rightarrow> 'st \<Rightarrow> 'st) option"
  tbl_getSortedRowModel :: "(SortingState \<Rightarrow> 'r Row list \<Rightarrow> 'r Row list) option"
  tbl_getPaginationRowModel :: bool
  tbl_manualPagination :: bool
  tbl_pageCount :: int
  tbl_pageSize :: int

definition getCoreRowModel :: "'r list \<Rightarrow> 'r Row list" where
  "getCoreRowModel d = map (\<lambda>(i, r). \<lparr>index = i, original = r\<rparr>) (enumerate 0 d)"

definition getSortedRowModel :: "('r, 'v, 'st) TableOptions \<Rightarrow> 'r Row list" where
  "getSortedRowModel opts =
     (case tbl_getSortedRowModel opts of
        None \<Rightarrow> getCoreRowModel (tbl_data opts)
      | Some sortRows \<Rightarrow>
          if tbl_sorting opts = [] then getCoreRowModel (tbl_data opts)
          else sortRows (tbl_sorting opts) (getCoreRowModel (tbl_data opts)))"

definition getPaginationRowModel :: "('r, 'v, 'st) TableOptions \<Rightarrow> nat \<Rightarrow> 'r Row list" where
  "getPaginationRowModel opts pageIndex =
     (if tbl_manualPagination opts \<or> \<not> tbl_getPaginationRowModel opts
      then getSortedRowModel opts
      else take (nat (tbl_pageSize opts))
             (drop (pageIndex * nat (tbl_pageSize opts)) (getSortedRowModel opts)))"

text \<open>The page index of the library's own pagination state starts at 0 and nothing in
  the component changes it.\<close>

definition getRowModel :: "('r, 'v, 'st) TableOptions \<Rightarrow> 'r Row list" where
  "getRowModel opts = getPaginationRowModel opts 0"

text \<open>\<open>table.setSorting\<close>: the updater goes to \<open>onSortingChange\<close> when that option is
  passed.\<close>

definition table_setSorting ::
  "('r, 'v, 'st) TableOptions \<Rightarrow> (SortingState \<Rightarrow> SortingState) \<Rightarrow> 'st \<Rightarrow> 'st"
where
  "table_setSorting opts updater st =
     (case tbl_onSortingChange opts of None \<Rightarrow> st | Some change \<Rightarrow> change updater st)"

text \<open>
  \<open>flexRender\<close> of a column's header: the string itself, or what the caller's renderer
  makes of the sorting state. \<open>flexRender\<close> of a column's cell for a row: the column's own
  renderer when it has one, otherwise the default cell, which shows the accessor's value
  (nothing when the column has no accessor).
\<close>

definition renderHeader :: "('r, 'v) ColumnDef \<Rightarrow> SortingState \<Rightarrow> ('r, 'v) Node" where
  "renderHeader c srt =
     (case header c of HeaderString h \<Rightarrow> Txt h | HeaderRenderer f \<Rightarrow> Content (f srt))"

definition renderCell :: "('r, 'v) ColumnDef \<Rightarrow> 'r Row \<Rightarrow> ('r, 'v) Node" where
  "renderCell c row =
     (case cell c of
        Some f \<Rightarrow> f row
      | None \<Rightarrow> (case accessorFn c of Some g \<Rightarrow> Content (g (original row)) | None \<Rightarrow> Empty))"

section \<open>The table component\<close>

text \<open>
  The props of \<open>DataTable\<close>. \<open>onPageChange\<close> is required and is therefore always there;
  for each optional callback the record says whether it was supplied. The other optional
  props are options, with the defaults of the destructuring pattern applied where they
  are read.
\<close>

record ('r, 'v) DataTableProps =
  data :: "'r list"
  columns :: "('r, 'v) ColumnDef list"
  pageCount :: int
  currentPage :: int
  pageSize :: "int option"
  onEdit :: bool
  onDelete :: bool
  editRoute :: "string option"
  isLoading :: "bool option"
  searchValue :: "string option"
  onSearch :: bool
  columnStyles :: "(string \<rightharpoonup> string) option"

definition pageSize_of :: "('r, 'v) DataTableProps \<Rightarrow> int" where
  "pageSize_of p = (case pageSize p of None \<Rightarrow> 10 | Some n \<Rightarrow> n)"

definition isLoading_of :: "('r, 'v) DataTableProps \<Rightarrow> bool" where
  "isLoading_of p = (case isLoading p of None \<Rightarrow> False | Some b \<Rightarrow> b)"

definition searchValue_of :: "('r, 'v) DataTableProps \<Rightarrow> string" where
  "searchValue_of p = (case searchValue p of None \<Rightarrow> [] | Some v \<Rightarrow> v)"

definition columnStyles_of :: "('r, 'v) DataTableProps \<Rightarrow> string \<Rightarrow> string" where
  "columnStyles_of p c =
     (case columnStyles p of
        None \<Rightarrow> []
      | Some styles \<Rightarrow> (case styles c of None \<Rightarrow> [] | Some cls \<Rightarrow> cls))"

text \<open>
  The state the component keeps between renders: the sorting state of \<open>useState\<close>, and
  for each body row (by index) whether its confirmation dialog is open.
\<close>

record DataTableState =
  sorting :: SortingState
  dialogOpen :: "nat set"

definition initialState :: DataTableState where
  "initialState = \<lparr>sorting = [], dialogOpen = {}\<rparr>"

text \<open>The setter of the sorting state, called with an updater.\<close>

definition setSorting :: "(SortingState \<Rightarrow> SortingState) \<Rightarrow> DataTableState \<Rightarrow> DataTableState" where
  "setSorting updater s = s\<lparr>sorting := updater (sorting s)\<rparr>"

subsection \<open>The column set\<close>

text \<open>
  The edit button of a row. The handler tests \<open>if (editRoute)\<close>: an optional string is
  falsy when it is absent and also when it is the empty string.
\<close>

definition editButton ::
  "('a RowBase_scheme, 'v) DataTableProps \<Rightarrow> 'a RowBase_scheme Row \<Rightarrow> 'a RowBase_scheme Button"
where
  "editButton p row =
     \<lparr>caption = ''Pencil'',
      onClick =
        (case editRoute p of
           None \<Rightarrow> [Call_onEdit (original row)]
         | Some route \<Rightarrow>
             if route = [] then [Call_onEdit (original row)]
             else [Call_navigate (route @ ''/'' @ idToString (row_id (original row)))]),
      disabled = False\<rparr>"

definition deleteDialog ::
  "('r, 'v) DataTableProps \<Rightarrow> 'r Row \<Rightarrow> 'r AlertDialog"
where
  "deleteDialog p row =
     \<lparr>dialogTitle = ''Confirm Deletion'',
      dialogDescription =
        ''Are you sure you want to delete this item? This action cannot be undone.'',
      cancelLabel = ''Cancel'',
      actionLabel = ''Delete'',
      action_onClick = [Call_onDelete (original row)]\<rparr>"

definition actionsColumn ::
  "('a RowBase_scheme, 'v) DataTableProps \<Rightarrow> ('a RowBase_scheme, 'v) ColumnDef"
where
  "actionsColumn p =
     \<lparr>colId = ''actions'',
      header = HeaderString ''Actions'',
      accessorFn = None,
      cell = Some (\<lambda>row.
        ActionsDiv
          (if onEdit p then Some (editButton p row) else None)
          (if onDelete p then Some (deleteDialog p row) else None))\<rparr>"

definition tableColumns ::
  "('a RowBase_scheme, 'v) DataTableProps \<Rightarrow> ('a RowBase_scheme, 'v) ColumnDef list"
where
  "tableColumns p =
     (if \<not> onEdit p \<and> \<not> onDelete p then columns p
      else columns p @ [actionsColumn p])"

subsection \<open>The rendered tree\<close>

text \<open>
  Only what decides behaviour is kept of the rendered tree: the children of the root
  \<open>div\<close> in order, the cells with their \<open>colSpan\<close>, column style and content, and the
  controls with their handlers and their \<open>disabled\<close> flag. Keys, icons, the fixed
  style classes of buttons and the \<open>data-state\<close> attribute of body rows (no row is ever
  selected) are left out.
\<close>

record ('r, 'v) TableCell =
  colSpan :: "nat option"
  className :: string
  children :: "('r, 'v) Node"

type_synonym ('r, 'v) TableRow = "('r, 'v) TableCell list"

text \<open>A text input: \<open>shown\<close> is its \<open>value\<close> attribute, the string it displays, and
  \<open>onChange\<close> receives the new content of the input.\<close>

record 'r Input =
  placeholder :: string
  shown :: string
  onChange :: "string \<Rightarrow> 'r Invocation list"

datatype TextNode = Str string | Num int

fun textOf :: "TextNode \<Rightarrow> string" where
  "textOf (Str s) = s"
| "textOf (Num n) = numberToString n"

definition textContent :: "TextNode list \<Rightarrow> string" where
  "textContent ns = concat (map textOf ns)"

datatype ('r, 'v) Element =
    SearchBar "'r Input"
  | TableEl "('r, 'v) TableRow list" "('r, 'v) TableRow list"
  | PagerEl "TextNode list" "'r Button" "'r Button"

text \<open>
  The options the component passes to \<open>useReactTable\<close>: the sorting state and its setter
  are among them, a \<open>getSortedRowModel\<close> is not.
\<close>

definition useReactTable ::
  "('a RowBase_scheme, 'v) DataTableProps \<Rightarrow> DataTableState
     \<Rightarrow> ('a RowBase_scheme, 'v, DataTableState) TableOptions"
where
  "useReactTable p s =
     \<lparr>tbl_data = data p,
      tbl_columns = tableColumns p,
      tbl_sorting = sorting s,
      tbl_onSortingChange = Some setSorting,
      tbl_getSortedRowModel = None,
      tbl_getPaginationRowModel = True,
      tbl_manualPagination = True,
      tbl_pageCount = pageCount p,
      tbl_pageSize = pageSize_of p\<rparr>"

definition searchInput :: "('r, 'v) DataTableProps \<Rightarrow> 'r Input option" where
  "searchInput p =
     (if onSearch p
      then Some \<lparr>placeholder = ''Search...'', shown = searchValue_of p,
                  onChange = (\<lambda>v. [Call_onSearch v])\<rparr>
      else None)"

text \<open>
  The header: one header group (the columns are flat), one \<open>TableHead\<close> per column,
  holding the rendering of the column's header. A \<open>TableHead\<close> is given a key and a style
  class and nothing else: the component attaches no click handler to a header. What a
  caller's header renderer does with the sorting interface is an event of its own below.
\<close>

definition TableHeader ::
  "('a RowBase_scheme, 'v) DataTableProps \<Rightarrow> DataTableState
     \<Rightarrow> ('a RowBase_scheme, 'v) TableRow list"
where
  "TableHeader p s =
     [map (\<lambda>c. \<lparr>colSpan = None, className = columnStyles_of p (colId c),
                    children = renderHeader c (sorting s)\<rparr>)
        (tbl_columns (useReactTable p s))]"

definition placeholderRow :: "nat \<Rightarrow> string \<Rightarrow> ('r, 'v) TableRow" where
  "placeholderRow n msg =
     [\<lparr>colSpan = Some n, className = ''h-24 text-center'', children = Txt msg\<rparr>]"

definition bodyRow ::
  "('a RowBase_scheme, 'v) DataTableProps \<Rightarrow> ('a RowBase_scheme, 'v) ColumnDef list
     \<Rightarrow> 'a RowBase_scheme Row \<Rightarrow> ('a RowBase_scheme, 'v) TableRow"
where
  "bodyRow p cols row =
     map (\<lambda>c. \<lparr>colSpan = None, className = columnStyles_of p (colId c),
                   children = renderCell c row\<rparr>) cols"

definition TableBody ::
  "('a RowBase_scheme, 'v) DataTableProps \<Rightarrow> DataTableState
     \<Rightarrow> ('a RowBase_scheme, 'v) TableRow list"
where
  "TableBody p s =
     (if isLoading_of p then [placeholderRow (length (tableColumns p)) ''Loading...'']
      else if length (getRowModel (useReactTable p s)) \<noteq> 0
      then map (bodyRow p (tbl_columns (useReactTable p s))) (getRowModel (useReactTable p s))
      else [placeholderRow (length (tableColumns p)) ''No results.''])"

text \<open>
  The pager. \<open>currentPage - 1\<close> and \<open>currentPage + 1\<close> are the integer difference and
  sum, which is what the host language computes for safe integers.
\<close>

definition pagerText :: "('r, 'v) DataTableProps \<Rightarrow> TextNode list" where
  "pagerText p = [Str ''Page '', Num (currentPage p), Str '' of '', Num (pageCount p)]"

definition previousButton :: "('r, 'v) DataTableProps \<Rightarrow> 'r Button" where
  "previousButton p =
     \<lparr>caption = ''Previous'',
      onClick = [Call_onPageChange (currentPage p - 1)],
      disabled = (currentPage p = 1)\<rparr>"

definition nextButton :: "('r, 'v) DataTableProps \<Rightarrow> 'r Button" where
  "nextButton p =
     \<lparr>caption = ''Next'',
      onClick = [Call_onPageChange (currentPage p + 1)],
      disabled = (currentPage p = pageCount p)\<rparr>"

definition DataTable ::
  "('a RowBase_scheme, 'v) DataTableProps \<Rightarrow> DataTableState
     \<Rightarrow> ('a RowBase_scheme, 'v) Element list"
where
  "DataTable p s =
     (case searchInput p of None \<Rightarrow> [] | Some inp \<Rightarrow> [SearchBar inp])
     @ [TableEl (TableHeader p s) (TableBody p s),
        PagerEl (pagerText p) (previousButton p) (nextButton p)]"

subsection \<open>Events\<close>

text \<open>What can be done to a confirmation dialog: use its trigger, cancel it, dismiss it,
  or use its affirmative control.\<close>

datatype DialogEvent = Trigger | Cancel | Dismiss | Action

text \<open>
  Modelled from the spec: the dialog components of \<open>@/components/ui/alert-dialog\<close> are
  not among the sources. The spec describes a modal confirmation dialog: the trigger
  opens it; cancelling or dismissing closes it and calls nothing; the affirmative control
  runs its click handler and closes it. The cancel and affirmative controls exist only
  while the dialog is open, and an open modal dialog covers its trigger. The result is
  \<open>None\<close> when the control is not there to be used.
\<close>

fun AlertDialog_step ::
  "'r AlertDialog \<Rightarrow> bool \<Rightarrow> DialogEvent \<Rightarrow> (bool \<times> 'r Invocation list) option"
where
  "AlertDialog_step d isOpen Trigger = (if isOpen then None else Some (True, []))"
| "AlertDialog_step d isOpen Cancel = (if isOpen then Some (False, []) else None)"
| "AlertDialog_step d isOpen Dismiss = (if isOpen then Some (False, []) else None)"
| "AlertDialog_step d isOpen Action = (if isOpen then Some (False, action_onClick d) else None)"

text \<open>
  What the user can do to the rendered component. Rows and header cells are addressed by
  their position. A click on a disabled button is not delivered to its handler.
  \<open>ClickHeader j\<close> is a click on the header cell of column \<open>j\<close> itself.
  \<open>HeaderSortingChange j updater\<close> is the use of a control that the caller's renderer put
  into the header of column \<open>j\<close> and that calls the library's sorting interface, for which
  the library computes \<open>updater\<close>; a header that is a string holds no such control.
\<close>

datatype Event =
    ClickHeader nat
  | HeaderSortingChange nat "SortingState \<Rightarrow> SortingState"
  | ClickPrevious
  | ClickNext
  | ClickEdit nat
  | ClickDeleteTrigger nat
  | ClickDeleteCancel nat
  | ClickDeleteAction nat
  | DismissDialog nat
  | ChangeSearch string

definition clickButton :: "'r Button \<Rightarrow> 'r Invocation list" where
  "clickButton b = (if disabled b then [] else onClick b)"

text \<open>
  The content of the actions cell of body row \<open>i\<close>, read off the rendered body: the
  actions column, when there is one, is the last column of the row.
\<close>

definition actionsNode ::
  "('a RowBase_scheme, 'v) DataTableProps \<Rightarrow> DataTableState \<Rightarrow> nat
     \<Rightarrow> ('a RowBase_scheme, 'v) Node option"
where
  "actionsNode p s i =
     (if (onEdit p \<or> onDelete p) \<and> \<not> isLoading_of p
         \<and> i < length (getRowModel (useReactTable p s))
      then Some (children (last (TableBody p s ! i)))
      else None)"

definition dialogEvent ::
  "('a RowBase_scheme, 'v) DataTableProps \<Rightarrow> DataTableState \<Rightarrow> nat \<Rightarrow> DialogEvent
     \<Rightarrow> (DataTableState \<times> 'a RowBase_scheme Invocation list) option"
where
  "dialogEvent p s i ev =
     (case actionsNode p s i of
        Some (ActionsDiv b (Some d)) \<Rightarrow>
          (case AlertDialog_step d (i \<in> dialogOpen s) ev of
             None \<Rightarrow> None
           | Some (isOpen, calls) \<Rightarrow>
               Some (s\<lparr>dialogOpen :=
                         (if isOpen then insert i (dialogOpen s) else dialogOpen s - {i})\<rparr>,
                     calls))
      | _ \<Rightarrow> None)"

fun handle ::
  "('a RowBase_scheme, 'v) DataTableProps \<Rightarrow> DataTableState \<Rightarrow> Event
     \<Rightarrow> (DataTableState \<times> 'a RowBase_scheme Invocation list) option"
where
  "handle p s (ClickHeader j) =
     (if j < length (concat (TableHeader p s)) then Some (s, []) else None)"
| "handle p s (HeaderSortingChange j updater) =
     (if j < length (tableColumns p)
      then (case header (tableColumns p ! j) of
              HeaderString h \<Rightarrow> None
            | HeaderRenderer f \<Rightarrow> Some (table_setSorting (useReactTable p s) updater s, []))
      else None)"
| "handle p s ClickPrevious = Some (s, clickButton (previousButton p))"
| "handle p s ClickNext = Some (s, clickButton (nextButton p))"
| "handle p s (ClickEdit i) =
     (case actionsNode p s i of
        Some (ActionsDiv (Some b) d) \<Rightarrow> Some (s, clickButton b)
      | _ \<Rightarrow> None)"
| "handle p s (ClickDeleteTrigger i) = dialogEvent p s i Trigger"
| "handle p s (ClickDeleteCancel i) = dialogEvent p s i Cancel"
| "handle p s (ClickDeleteAction i) = dialogEvent p s i Action"
| "handle p s (DismissDialog i) = dialogEvent p s i Dismiss"
| "handle p s (ChangeSearch v) =
     (case searchInput p of None \<Rightarrow> None | Some inp \<Rightarrow> Some (s, onChange inp v))"

text \<open>A sequence of events under fixed props, with the calls made in order.\<close>

fun run ::
  "('a RowBase_scheme, 'v) DataTableProps \<Rightarrow> DataTableState \<Rightarrow> Event list
     \<Rightarrow> (DataTableState \<times> 'a RowBase_scheme Invocation list) option"
where
  "run p s [] = Some (s, [])"
| "run p s (e # es) =
     (case handle p s e of
        None \<Rightarrow> None
      | Some (s1, calls1) \<Rightarrow>
          (case run p s1 es of
             None \<Rightarrow> None
           | Some (s2, calls2) \<Rightarrow> Some (s2, calls1 @ calls2)))"

section \<open>The screen that fetches the pages\<close>

record AuctionData = RowBase +
  dateString :: string
  auctioneer :: string
  lots :: real
  qty :: real
  qtySold :: real
  maxPrice :: real
  avgPrice :: real
  type' :: string

datatype JsValue = JsString string | JsNumber real

text \<open>The three \<open>useState\<close> cells of \<open>App\<close>, with their initial values.\<close>

record 'r AppState =
  app_data :: "'r list"
  app_currentPage :: int
  app_isLoading :: bool

definition App_initial :: "'r AppState" where
  "App_initial = \<lparr>app_data = [], app_currentPage = 1, app_isLoading = False\<rparr>"

definition App_columns :: "(AuctionData, JsValue) ColumnDef list" where
  "App_columns =
     [\<lparr>colId = ''dateString'', header = HeaderString ''Date'',
       accessorFn = Some (\<lambda>r. JsString (dateString r)), cell = None\<rparr>,
      \<lparr>colId = ''auctioneer'', header = HeaderString ''Auctioneer'',
       accessorFn = Some (\<lambda>r. JsString (auctioneer r)), cell = None\<rparr>,
      \<lparr>colId = ''lots'', header = HeaderString ''Lots'',
       accessorFn = Some (\<lambda>r. JsNumber (lots r)), cell = None\<rparr>,
      \<lparr>colId = ''qty'', header = HeaderString ''Quantity'',
       accessorFn = Some (\<lambda>r. JsNumber (qty r)), cell = None\<rparr>,
      \<lparr>colId = ''qtySold'', header = HeaderString ''Quantity Sold'',
       accessorFn = Some (\<lambda>r. JsNumber (qtySold r)), cell = None\<rparr>,
      \<lparr>colId = ''maxPrice'', header = HeaderString ''Max Price'',
       accessorFn = Some (\<lambda>r. JsNumber (maxPrice r)), cell = None\<rparr>,
      \<lparr>colId = ''avgPrice'', header = HeaderString ''Average Price'',
       accessorFn = Some (\<lambda>r. JsNumber (avgPrice r)), cell = None\<rparr>,
      \<lparr>colId = ''type'', header = HeaderString ''Type'',
       accessorFn = Some (\<lambda>r. JsString (type' r)), cell = None\<rparr>]"

definition App_columnStyles :: "string \<rightharpoonup> string" where
  "App_columnStyles = [''dateString'' \<mapsto> ''w-28'']"

definition App_props :: "AuctionData AppState \<Rightarrow> (AuctionData, JsValue) DataTableProps" where
  "App_props st =
     \<lparr>data = app_data st,
      columns = App_columns,
      pageCount = 10,
      currentPage = app_currentPage st,
      pageSize = Some 10,
      onEdit = False,
      onDelete = False,
      editRoute = None,
      isLoading = Some (app_isLoading st),
      searchValue = None,
      onSearch = False,
      columnStyles = Some App_columnStyles\<rparr>"

text \<open>
  The network, as far as \<open>fetchData\<close> uses it: \<open>fetch\<close> of a URL resolves to a response
  or rejects, and \<open>json\<close> of a response resolves to the parsed body or rejects. The
  parsed body has the type the program gives it, an array of rows; the program does not
  check it.
\<close>

datatype JsError = TypeError string | SyntaxError string

record ('resp, 'r) Network =
  net_fetch :: "string \<Rightarrow> JsError + 'resp"
  net_json :: "'resp \<Rightarrow> JsError + 'r list"

text \<open>
  \<open>fetchData\<close> is modelled by the operations it performs, in order: writes to the state
  cells, the request, and the line logged by the \<open>catch\<close> block. \<open>page\<close> is the value of
  \<open>currentPage\<close> that the effect closed over.
\<close>

datatype 'r Op =
    SetIsLoading bool
  | Fetch string
  | SetData "'r list"
  | ConsoleError string JsError

text \<open>The URL of a page, exact for a page number that is a safe integer.\<close>

definition fetchUrl :: "int \<Rightarrow> string" where
  "fetchUrl page = ''https://spicesinfo.in/auction-all/'' @ numberToString (page - 1) @ ''/10''"

definition fetchData :: "('resp, 'r) Network \<Rightarrow> int \<Rightarrow> 'r Op list" where
  "fetchData net page =
     [SetIsLoading True, Fetch (fetchUrl page)]
     @ (case net_fetch net (fetchUrl page) of
          Inl err \<Rightarrow> [ConsoleError ''Error fetching data:'' err]
        | Inr response \<Rightarrow>
            (case net_json net response of
               Inl err \<Rightarrow> [ConsoleError ''Error fetching data:'' err]
             | Inr result \<Rightarrow> [SetData result]))
     @ [SetIsLoading False]"

fun applyOp :: "'r AppState \<Rightarrow> 'r Op \<Rightarrow> 'r AppState" where
  "applyOp st (SetIsLoading b) = st\<lparr>app_isLoading := b\<rparr>"
| "applyOp st (Fetch u) = st"
| "applyOp st (SetData rows) = st\<lparr>app_data := rows\<rparr>"
| "applyOp st (ConsoleError msg err) = st"

definition runOps :: "'r AppState \<Rightarrow> 'r Op list \<Rightarrow> 'r AppState" where
  "runOps st ops = foldl applyOp st ops"

text \<open>
  The effect has \<open>currentPage\<close> as its only dependency: it runs once after the first
  render and once after every render in which \<open>currentPage\<close> differs from the render
  before. Each fetch is followed here to its end before the next event; fetches that
  overlap are outside the model. The result is the new state and the operations
  performed.
\<close>

definition App_mount :: "('resp, 'r) Network \<Rightarrow> 'r AppState \<times> 'r Op list" where
  "App_mount net =
     (runOps App_initial (fetchData net (app_currentPage (App_initial :: 'r AppState))),
      fetchData net (app_currentPage (App_initial :: 'r AppState)))"

definition setCurrentPage ::
  "('resp, 'r) Network \<Rightarrow> int \<Rightarrow> 'r AppState \<Rightarrow> 'r AppState \<times> 'r Op list"
where
  "setCurrentPage net n st =
     (if n = app_currentPage st then (st, [])
      else (runOps (st\<lparr>app_currentPage := n\<rparr>) (fetchData net n), fetchData net n))"

section \<open>Observations and sample inputs\<close>

text \<open>The requests, the loading flags written and the rows deleted, as they occur in a
  list of operations or calls.\<close>

fun requests :: "'r Op list \<Rightarrow> string list" where
  "requests [] = []"
| "requests (Fetch u # ops) = u # requests ops"
| "requests (other # ops) = requests ops"

fun loadingWrites :: "'r Op list \<Rightarrow> bool list" where
  "loadingWrites [] = []"
| "loadingWrites (SetIsLoading b # ops) = b # loadingWrites ops"
| "loadingWrites (other # ops) = loadingWrites ops"

fun deleteCalls :: "'r Invocation list \<Rightarrow> 'r list" where
  "deleteCalls [] = []"
| "deleteCalls (Call_onDelete r # calls) = r # deleteCalls calls"
| "deleteCalls (other # calls) = deleteCalls calls"

fun confirmedRows :: "Event list \<Rightarrow> nat list" where
  "confirmedRows [] = []"
| "confirmedRows (ClickDeleteAction i # es) = i # confirmedRows es"
| "confirmedRows (other # es) = confirmedRows es"

definition sampleRow :: "int \<Rightarrow> real \<Rightarrow> AuctionData" where
  "sampleRow n l =
     \<lparr>row_id = IdNum n, dateString = ''01-Jan-2025'', auctioneer = ''Board'',
      lots = l, qty = 100, qtySold = 90, maxPrice = 2500, avgPrice = 2100,
      type' = ''Small''\<rparr>"

definition sampleProps :: "(AuctionData, JsValue) DataTableProps" where
  "sampleProps =
     \<lparr>data = [sampleRow 42 5, sampleRow 7 3, sampleRow 9 7],
      columns = App_columns,
      pageCount = 10,
      currentPage = 3,
      pageSize = None,
      onEdit = True,
      onDelete = True,
      editRoute = Some ''/items/edit'',
      isLoading = None,
      searchValue = Some ''cardamom'',
      onSearch = True,
      columnStyles = None\<rparr>"

text \<open>The same table with one column, \<open>lots\<close>, whose header is a renderer that shows the
  sorting state and holds a control that toggles the sorting of the column.\<close>

definition sortableProps :: "(AuctionData, JsValue) DataTableProps" where
  "sortableProps =
     sampleProps\<lparr>columns :=
       [\<lparr>colId = ''lots'',
         header = HeaderRenderer (\<lambda>srt. JsString (if srt = [] then ''Lots'' else ''Lots *'')),
         accessorFn = Some (\<lambda>r. JsNumber (lots r)), cell = None\<rparr>]\<rparr>"

definition sampleState :: "AuctionData AppState" where
  "sampleState = \<lparr>app_data = [sampleRow 42 5], app_currentPage = 1, app_isLoading = False\<rparr>"

definition sampleNetwork :: "(string, AuctionData) Network" where
  "sampleNetwork =
     \<lparr>net_fetch = (\<lambda>u. if u = ''https://spicesinfo.in/auction-all/2/10''
                        then Inr ''[{id:1},{id:2}]''
                        else if u = ''https://spicesinfo.in/auction-all/3/10''
                        then Inr ''<html>''
                        else Inl (TypeError ''Failed to fetch'')),
      net_json = (\<lambda>body. if body = ''[{id:1},{id:2}]''
                        then Inr [sampleRow 1 4, sampleRow 2 6]
                        else Inl (SyntaxError ''Unexpected token''))\<rparr>"

section \<open>Properties of the table component\<close>

subsection \<open>The row pipeline and the actions cell\<close>

lemma getRowModel_useReactTable: "getRowModel (useReactTable p s) = getCoreRowModel (data p)"
  by (simp add: getRowModel_def getPaginationRowModel_def getSortedRowModel_def useReactTable_def)

lemma length_getCoreRowModel: "length (getCoreRowModel d) = length d"
  by (simp add: getCoreRowModel_def)

lemma original_getCoreRowModel: "map original (getCoreRowModel d) = d"
proof -
  have "map original (map (\<lambda>(i, r). \<lparr>index = i, original = r\<rparr>) xs) = map snd xs"
    for xs :: "(nat \<times> 'a) list"
    by (induction xs) auto
  then show ?thesis
    unfolding getCoreRowModel_def by (simp only: map_snd_enumerate)
qed

lemma tbl_columns_useReactTable: "tbl_columns (useReactTable p s) = tableColumns p"
  by (simp add: useReactTable_def)

lemma table_setSorting_useReactTable:
  "table_setSorting (useReactTable p s) updater s = s\<lparr>sorting := updater (sorting s)\<rparr>"
  by (simp add: table_setSorting_def useReactTable_def setSorting_def)

lemma nth_getCoreRowModel:
  "i < length d \<Longrightarrow> getCoreRowModel d ! i = \<lparr>index = i, original = d ! i\<rparr>"
  by (simp add: getCoreRowModel_def nth_enumerate_eq)


lemma TableBody_rows:
  "\<not> isLoading_of p \<Longrightarrow> data p \<noteq> [] \<Longrightarrow>
   TableBody p s = map (bodyRow p (tableColumns p)) (getCoreRowModel (data p))"
  by (simp add: TableBody_def getRowModel_useReactTable length_getCoreRowModel
      tbl_columns_useReactTable)

lemma tableColumns_with_actions:
  "onEdit p \<or> onDelete p \<Longrightarrow> tableColumns p = columns p @ [actionsColumn p]"
  by (auto simp: tableColumns_def)

lemma actionsNode_eq:
  "actionsNode p s i =
     (if (onEdit p \<or> onDelete p) \<and> \<not> isLoading_of p \<and> i < length (data p)
      then Some (ActionsDiv
             (if onEdit p then Some (editButton p \<lparr>index = i, original = data p ! i\<rparr>) else None)
             (if onDelete p then Some (deleteDialog p \<lparr>index = i, original = data p ! i\<rparr>) else None))
      else None)"
proof (cases "(onEdit p \<or> onDelete p) \<and> \<not> isLoading_of p \<and> i < length (data p)")
  case True
  then have ne: "data p \<noteq> []" by auto
  have body: "TableBody p s ! i = bodyRow p (tableColumns p) \<lparr>index = i, original = data p ! i\<rparr>"
    using True ne by (simp add: TableBody_rows length_getCoreRowModel nth_getCoreRowModel)
  have cols: "tableColumns p = columns p @ [actionsColumn p]"
    using True by (simp add: tableColumns_with_actions)
  show ?thesis
    using True
    by (simp add: actionsNode_def getRowModel_useReactTable length_getCoreRowModel body cols
        bodyRow_def renderCell_def actionsColumn_def)
next
  case False
  then show ?thesis
    by (auto simp: actionsNode_def getRowModel_useReactTable length_getCoreRowModel)
qed


subsection \<open>The column set\<close>

text \<open>
  Claim C2, as the code has it: the rendered column set is the supplied columns with the
  actions column appended at the end exactly when an edit callback or a delete callback
  is supplied; otherwise it is the supplied columns unchanged, whatever the edit route
  is. An edit route alone does not add the column.
\<close>

theorem actions_column_appended:
  "(onEdit p \<or> onDelete p \<longrightarrow> tableColumns p = columns p @ [actionsColumn p])
   \<and> (\<not> onEdit p \<and> \<not> onDelete p \<longrightarrow>
        tableColumns p = columns p \<and> tableColumns (p\<lparr>editRoute := r\<rparr>) = columns p)"
  by (simp add: tableColumns_def)

theorem actions_column_appended_witness:
  "tableColumns sampleProps = columns sampleProps @ [actionsColumn sampleProps]
   \<and> map colId (tableColumns sampleProps) =
       [''dateString'', ''auctioneer'', ''lots'', ''qty'', ''qtySold'', ''maxPrice'',
        ''avgPrice'', ''type'', ''actions'']
   \<and> tableColumns (sampleProps\<lparr>onEdit := False, onDelete := False, editRoute := None\<rparr>)
       = App_columns"
proof -
  have a: "onEdit sampleProps \<or> onDelete sampleProps"
    by (simp add: sampleProps_def)
  have b: "\<not> onEdit (sampleProps\<lparr>onEdit := False, onDelete := False\<rparr>)
           \<and> \<not> onDelete (sampleProps\<lparr>onEdit := False, onDelete := False\<rparr>)"
    by simp
  have c: "tableColumns sampleProps = columns sampleProps @ [actionsColumn sampleProps]"
    using actions_column_appended [of sampleProps] a by blast
  have d: "tableColumns (sampleProps\<lparr>onEdit := False, onDelete := False, editRoute := None\<rparr>)
           = App_columns"
    using actions_column_appended [of "sampleProps\<lparr>onEdit := False, onDelete := False\<rparr>" None] b
    by (simp add: sampleProps_def)
  show ?thesis
    using c d by (simp add: sampleProps_def App_columns_def actionsColumn_def)
qed

text \<open>
  Claim C2 as written also appends the column when only an edit route is supplied. With
  the route \<open>/items/edit\<close> and neither callback, the column set is the supplied one.
\<close>

theorem edit_route_alone_counterexample:
  "editRoute (sampleProps\<lparr>onEdit := False, onDelete := False\<rparr>) = Some ''/items/edit''
   \<and> tableColumns (sampleProps\<lparr>onEdit := False, onDelete := False\<rparr>)
       = columns (sampleProps\<lparr>onEdit := False, onDelete := False\<rparr>)
   \<and> tableColumns (sampleProps\<lparr>onEdit := False, onDelete := False\<rparr>)
       \<noteq> columns (sampleProps\<lparr>onEdit := False, onDelete := False\<rparr>)
           @ [actionsColumn (sampleProps\<lparr>onEdit := False, onDelete := False\<rparr>)]"
  by (simp add: tableColumns_def sampleProps_def)

subsection \<open>The three bodies\<close>

text \<open>
  Claim C3: the body is decided by the loading flag and the number of rows, in this
  order. When the loading flag is set, it is one row with one cell that spans all columns
  and reads \<open>Loading...\<close>, whatever the rows are; otherwise, with no rows, it is one such
  row reading \<open>No results.\<close>; otherwise it has exactly one row per record, and row \<open>i\<close>
  has one cell per column, in column order, holding that column's rendering of record
  \<open>i\<close>.
\<close>

theorem body_states:
  "(isLoading_of p \<longrightarrow>
      TableBody p s =
        [[\<lparr>colSpan = Some (length (tableColumns p)), className = ''h-24 text-center'',
           children = Txt ''Loading...''\<rparr>]])
   \<and> (\<not> isLoading_of p \<and> length (data p) = 0 \<longrightarrow>
      TableBody p s =
        [[\<lparr>colSpan = Some (length (tableColumns p)), className = ''h-24 text-center'',
           children = Txt ''No results.''\<rparr>]])
   \<and> (\<not> isLoading_of p \<and> length (data p) \<noteq> 0 \<longrightarrow>
      length (TableBody p s) = length (data p)
      \<and> (\<forall>i < length (data p).
            map children (TableBody p s ! i) =
              map (\<lambda>c. renderCell c \<lparr>index = i, original = data p ! i\<rparr>) (tableColumns p)
            \<and> map colSpan (TableBody p s ! i) = map (\<lambda>c. None) (tableColumns p)))"
proof (intro conjI impI)
  assume "isLoading_of p"
  then show "TableBody p s =
        [[\<lparr>colSpan = Some (length (tableColumns p)), className = ''h-24 text-center'',
           children = Txt ''Loading...''\<rparr>]]"
    by (simp add: TableBody_def placeholderRow_def)
next
  assume "\<not> isLoading_of p \<and> length (data p) = 0"
  then show "TableBody p s =
        [[\<lparr>colSpan = Some (length (tableColumns p)), className = ''h-24 text-center'',
           children = Txt ''No results.''\<rparr>]]"
    by (simp add: TableBody_def placeholderRow_def getRowModel_useReactTable
        getCoreRowModel_def)
next
  assume a: "\<not> isLoading_of p \<and> length (data p) \<noteq> 0"
  then have rows: "TableBody p s = map (bodyRow p (tableColumns p)) (getCoreRowModel (data p))"
    by (simp add: TableBody_rows)
  show "length (TableBody p s) = length (data p)"
    by (simp add: rows length_getCoreRowModel)
  show "\<forall>i < length (data p).
            map children (TableBody p s ! i) =
              map (\<lambda>c. renderCell c \<lparr>index = i, original = data p ! i\<rparr>) (tableColumns p)
            \<and> map colSpan (TableBody p s ! i) = map (\<lambda>c. None) (tableColumns p)"
    by (simp add: rows length_getCoreRowModel nth_getCoreRowModel bodyRow_def comp_def)
qed


theorem body_states_witness:
  "TableBody (sampleProps\<lparr>isLoading := Some True\<rparr>) initialState =
     [[\<lparr>colSpan = Some 9, className = ''h-24 text-center'', children = Txt ''Loading...''\<rparr>]]
   \<and> TableBody (sampleProps\<lparr>data := []\<rparr>) initialState =
     [[\<lparr>colSpan = Some 9, className = ''h-24 text-center'', children = Txt ''No results.''\<rparr>]]
   \<and> length (TableBody sampleProps initialState) = 3
   \<and> length (TableBody sampleProps initialState ! 1) = 9
   \<and> children (TableBody sampleProps initialState ! 1 ! 2) = Content (JsNumber 3)"
proof -
  have l: "isLoading_of (sampleProps\<lparr>isLoading := Some True\<rparr>)"
    by (simp add: isLoading_of_def)
  have e: "\<not> isLoading_of (sampleProps\<lparr>data := []\<rparr>)
           \<and> length (data (sampleProps\<lparr>data := []\<rparr>)) = 0"
    by (simp add: isLoading_of_def sampleProps_def)
  have r: "\<not> isLoading_of sampleProps \<and> length (data sampleProps) \<noteq> 0"
    by (simp add: isLoading_of_def sampleProps_def)
  have n: "length (tableColumns (sampleProps\<lparr>isLoading := Some True\<rparr>)) = 9"
          "length (tableColumns (sampleProps\<lparr>data := []\<rparr>)) = 9"
          "length (tableColumns sampleProps) = 9"
    by (simp_all add: tableColumns_def sampleProps_def App_columns_def)
  have one: "(1::nat) < length (data sampleProps)"
    by (simp add: sampleProps_def)
  have c1: "TableBody (sampleProps\<lparr>isLoading := Some True\<rparr>) initialState =
     [[\<lparr>colSpan = Some 9, className = ''h-24 text-center'', children = Txt ''Loading...''\<rparr>]]"
    using body_states [of "sampleProps\<lparr>isLoading := Some True\<rparr>" initialState] l n(1)
    by simp
  have c2: "TableBody (sampleProps\<lparr>data := []\<rparr>) initialState =
     [[\<lparr>colSpan = Some 9, className = ''h-24 text-center'', children = Txt ''No results.''\<rparr>]]"
    using body_states [of "sampleProps\<lparr>data := []\<rparr>" initialState] e n(2)
    by simp
  have c3: "length (TableBody sampleProps initialState) = 3"
    using body_states [of sampleProps initialState] r by (simp add: sampleProps_def)
  have ch: "map children (TableBody sampleProps initialState ! 1) =
              map (\<lambda>c. renderCell c \<lparr>index = 1, original = data sampleProps ! 1\<rparr>)
                (tableColumns sampleProps)"
    using body_states [of sampleProps initialState] r one by blast
  have c4: "length (TableBody sampleProps initialState ! 1) = 9"
    using arg_cong [OF ch, of length] n(3) by simp
  have "map children (TableBody sampleProps initialState ! 1) ! 2 = Content (JsNumber 3)"
    unfolding ch
    by (simp add: tableColumns_def sampleProps_def App_columns_def renderCell_def
        sampleRow_def)
  then have c5: "children (TableBody sampleProps initialState ! 1 ! 2) = Content (JsNumber 3)"
    using c4 by simp
  show ?thesis using c1 c2 c3 c4 c5 by simp
qed

subsection \<open>The pager\<close>

text \<open>
  Claim C5: the last child of the component is the pager. Its text is \<open>Page\<close>, the
  current page, \<open>of\<close>, the page count. The Previous button is disabled exactly when the
  current page is 1 and the Next button exactly when the current page equals the page
  count. A click on Previous calls the page-change callback with the current page minus
  one and a click on Next with the current page plus one: nothing but the disabled flag
  keeps the argument in range. The current page and the page count are any safe
  integers.
\<close>

theorem pager_controls:
  "isSafeInteger (currentPage p) \<Longrightarrow> isSafeInteger (pageCount p) \<Longrightarrow>
   last (DataTable p s) = PagerEl (pagerText p) (previousButton p) (nextButton p)
   \<and> pagerText p = [Str ''Page '', Num (currentPage p), Str '' of '', Num (pageCount p)]
   \<and> textContent (pagerText p) =
       ''Page '' @ numberToString (currentPage p) @ '' of '' @ numberToString (pageCount p)
   \<and> disabled (previousButton p) = (currentPage p = 1)
   \<and> disabled (nextButton p) = (currentPage p = pageCount p)
   \<and> handle p s ClickPrevious =
       Some (s, if currentPage p = 1 then [] else [Call_onPageChange (currentPage p - 1)])
   \<and> handle p s ClickNext =
       Some (s, if currentPage p = pageCount p then []
                else [Call_onPageChange (currentPage p + 1)])"
  by (simp add: DataTable_def pagerText_def textContent_def previousButton_def
      nextButton_def clickButton_def)

theorem pager_controls_witness:
  "textContent (pagerText sampleProps) = ''Page 3 of 10''
   \<and> \<not> disabled (previousButton sampleProps)
   \<and> disabled (nextButton (sampleProps\<lparr>currentPage := 10\<rparr>))
   \<and> handle sampleProps initialState ClickPrevious = Some (initialState, [Call_onPageChange 2])
   \<and> handle sampleProps initialState ClickNext = Some (initialState, [Call_onPageChange 4])
   \<and> handle (sampleProps\<lparr>currentPage := 0\<rparr>) initialState ClickPrevious =
       Some (initialState, [Call_onPageChange (- 1)])
   \<and> handle (sampleProps\<lparr>currentPage := 11\<rparr>) initialState ClickNext =
       Some (initialState, [Call_onPageChange 12])
   \<and> handle (sampleProps\<lparr>currentPage := 1\<rparr>) initialState ClickPrevious =
       Some (initialState, [])"
proof -
  have d3: "numberToString 3 = ''3''" and d10: "numberToString 10 = ''10''"
    by (simp_all add: numberToString_def digits.simps)
  have v: "currentPage sampleProps = 3" "pageCount sampleProps = 10"
    by (simp_all add: sampleProps_def)
  have safe: "isSafeInteger (currentPage sampleProps)" "isSafeInteger (pageCount sampleProps)"
    by (simp_all add: v isSafeInteger_def)
  have safe': "isSafeInteger (currentPage (sampleProps\<lparr>currentPage := k\<rparr>))"
    "isSafeInteger (pageCount (sampleProps\<lparr>currentPage := k\<rparr>))"
    if "k \<in> {0, 1, 10, 11}" for k
    using that by (auto simp: v isSafeInteger_def)
  have "textContent (pagerText sampleProps) =
       ''Page '' @ numberToString (currentPage sampleProps) @ '' of ''
         @ numberToString (pageCount sampleProps)"
    using pager_controls [OF safe, of initialState] by blast
  then have c1: "textContent (pagerText sampleProps) = ''Page 3 of 10''"
    by (simp add: v d3 d10)
  have "disabled (previousButton sampleProps) = (currentPage sampleProps = 1)"
    using pager_controls [OF safe, of initialState] by blast
  then have c2: "\<not> disabled (previousButton sampleProps)"
    by (simp add: v)
  have "disabled (nextButton (sampleProps\<lparr>currentPage := 10\<rparr>)) =
          (currentPage (sampleProps\<lparr>currentPage := 10\<rparr>)
             = pageCount (sampleProps\<lparr>currentPage := 10\<rparr>))"
    using pager_controls [OF safe' [of 10], of initialState] by blast
  then have c3: "disabled (nextButton (sampleProps\<lparr>currentPage := 10\<rparr>))"
    by (simp add: v)
  have clicks: "handle q initialState ClickPrevious =
       Some (initialState,
             if currentPage q = 1 then [] else [Call_onPageChange (currentPage q - 1)])
     \<and> handle q initialState ClickNext =
       Some (initialState,
             if currentPage q = pageCount q then []
             else [Call_onPageChange (currentPage q + 1)])"
    if "isSafeInteger (currentPage q)" "isSafeInteger (pageCount q)"
    for q :: "(AuctionData, JsValue) DataTableProps"
    using pager_controls [OF that, of initialState] by blast
  show ?thesis
    using c1 c2 c3 clicks [OF safe] clicks [OF safe' [of 0]] clicks [OF safe' [of 11]]
      clicks [OF safe' [of 1]]
    by (simp add: v)
qed

subsection \<open>The search box\<close>

text \<open>
  Claim C9: when a search callback is supplied, the first child of the component, before
  the table, is a text input that shows the supplied search value (the empty string when
  none is supplied), and every change of the input calls the callback once with the new
  value as it is; when no search callback is supplied there is no input, and the
  component is just the table and the pager.
\<close>

theorem search_input:
  "(onSearch p \<longrightarrow>
      (\<exists>inp. DataTable p s =
                [SearchBar inp, TableEl (TableHeader p s) (TableBody p s),
                 PagerEl (pagerText p) (previousButton p) (nextButton p)]
             \<and> shown inp = (case searchValue p of None \<Rightarrow> [] | Some v \<Rightarrow> v)
             \<and> (\<forall>v. onChange inp v = [Call_onSearch v]))
      \<and> (\<forall>v. handle p s (ChangeSearch v) = Some (s, [Call_onSearch v])))
   \<and> (\<not> onSearch p \<longrightarrow>
      DataTable p s =
        [TableEl (TableHeader p s) (TableBody p s),
         PagerEl (pagerText p) (previousButton p) (nextButton p)]
      \<and> (\<forall>v. handle p s (ChangeSearch v) = None))"
  by (simp add: DataTable_def searchInput_def searchValue_of_def)

theorem search_input_witness:
  "(\<exists>inp. hd (DataTable sampleProps initialState) = SearchBar inp
          \<and> shown inp = ''cardamom'')
   \<and> handle sampleProps initialState (ChangeSearch ''pep '') =
       Some (initialState, [Call_onSearch ''pep ''])
   \<and> length (DataTable (sampleProps\<lparr>onSearch := False\<rparr>) initialState) = 2
   \<and> handle (sampleProps\<lparr>onSearch := False\<rparr>) initialState (ChangeSearch ''pep '') = None"
proof -
  have a: "onSearch sampleProps" "searchValue sampleProps = Some ''cardamom''"
    by (simp_all add: sampleProps_def)
  have b: "\<not> onSearch (sampleProps\<lparr>onSearch := False\<rparr>)"
    by simp
  from search_input [of sampleProps initialState] a
  obtain inp where
    "DataTable sampleProps initialState =
       [SearchBar inp,
        TableEl (TableHeader sampleProps initialState) (TableBody sampleProps initialState),
        PagerEl (pagerText sampleProps) (previousButton sampleProps) (nextButton sampleProps)]"
    and "shown inp = ''cardamom''"
    and h: "\<forall>v. handle sampleProps initialState (ChangeSearch v) =
                Some (initialState, [Call_onSearch v])"
    by auto
  then have c1: "\<exists>inp. hd (DataTable sampleProps initialState) = SearchBar inp
          \<and> shown inp = ''cardamom''"
    by simp
  have c2: "length (DataTable (sampleProps\<lparr>onSearch := False\<rparr>) initialState) = 2
     \<and> handle (sampleProps\<lparr>onSearch := False\<rparr>) initialState (ChangeSearch ''pep '') = None"
    using search_input [of "sampleProps\<lparr>onSearch := False\<rparr>" initialState] b by simp
  show ?thesis using c1 c2 h by simp
qed

subsection \<open>Row order\<close>

text \<open>
  Claim C10: when the loading flag is off and the data array is not empty, the rows of the
  row model are the records of the data array, in the same order, none dropped and none
  duplicated; the body rows are rendered from them in that order; and the sorting state
  has no influence on the body.
\<close>

theorem rows_in_data_order:
  "\<not> isLoading_of p \<Longrightarrow> data p \<noteq> [] \<Longrightarrow>
   map original (getRowModel (useReactTable p s)) = data p
   \<and> TableBody p s =
       map (\<lambda>(i, r). bodyRow p (tableColumns p) \<lparr>index = i, original = r\<rparr>)
         (enumerate 0 (data p))
   \<and> TableBody p (s\<lparr>sorting := srt\<rparr>) = TableBody p s"
  by (simp add: TableBody_rows getRowModel_useReactTable original_getCoreRowModel)
    (simp add: getCoreRowModel_def case_prod_unfold)


theorem rows_in_data_order_witness:
  "map (lots \<circ> original)
     (getRowModel (useReactTable sampleProps
        (initialState\<lparr>sorting := [\<lparr>sort_id = ''lots'', desc = False\<rparr>]\<rparr>))) = [5, 3, 7]
   \<and> TableBody sampleProps (initialState\<lparr>sorting := [\<lparr>sort_id = ''lots'', desc = False\<rparr>]\<rparr>)
       = TableBody sampleProps initialState"
proof -
  have a: "\<not> isLoading_of sampleProps" "data sampleProps \<noteq> []"
    by (simp_all add: isLoading_of_def sampleProps_def)
  have "map original
     (getRowModel (useReactTable sampleProps
        (initialState\<lparr>sorting := [\<lparr>sort_id = ''lots'', desc = False\<rparr>]\<rparr>))) = data sampleProps"
    using rows_in_data_order [OF a] by blast
  then have "map lots (map original
     (getRowModel (useReactTable sampleProps
        (initialState\<lparr>sorting := [\<lparr>sort_id = ''lots'', desc = False\<rparr>]\<rparr>)))) = [5, 3, 7]"
    by (simp add: sampleProps_def sampleRow_def)
  moreover have "TableBody sampleProps
       (initialState\<lparr>sorting := [\<lparr>sort_id = ''lots'', desc = False\<rparr>]\<rparr>)
       = TableBody sampleProps initialState"
    using rows_in_data_order [OF a, of initialState "[\<lparr>sort_id = ''lots'', desc = False\<rparr>]"]
    by blast
  ultimately show ?thesis by simp
qed

subsection \<open>The edit control\<close>

text \<open>
  Claim C6, as the code has it: a row has an edit control when an edit callback is
  supplied and the row is rendered. Clicking it navigates to the edit route, a slash and
  the row's identifier, and does not call the edit callback, when a non-empty edit route
  is supplied; it calls the edit callback with the row's record when no edit route is
  supplied or the supplied route is the empty string. The row's identifier is a string
  or a safe integer: the bound is that of exact printing, which for integers beyond it
  gives rounded digits well before the exponent form sets in.
\<close>

theorem edit_click:
  "onEdit p \<Longrightarrow> \<not> isLoading_of p \<Longrightarrow> i < length (data p) \<Longrightarrow>
   safeId (row_id (data p ! i)) \<Longrightarrow>
   handle p s (ClickEdit i) =
     Some (s, case editRoute p of
                None \<Rightarrow> [Call_onEdit (data p ! i)]
              | Some route \<Rightarrow>
                  if route = [] then [Call_onEdit (data p ! i)]
                  else [Call_navigate (route @ ''/'' @ idToString (row_id (data p ! i)))])"
  by (simp add: actionsNode_eq clickButton_def editButton_def split: option.split)

theorem edit_click_witness:
  "handle sampleProps initialState (ClickEdit 0) =
     Some (initialState, [Call_navigate ''/items/edit/42''])
   \<and> handle (sampleProps\<lparr>editRoute := None\<rparr>) initialState (ClickEdit 0) =
     Some (initialState, [Call_onEdit (sampleRow 42 5)])"
proof -
  have d: "numberToString 42 = ''42''"
    by (simp add: numberToString_def digits.simps)
  have a: "onEdit sampleProps" "\<not> isLoading_of sampleProps" "0 < length (data sampleProps)"
    "safeId (row_id (data sampleProps ! 0))"
    by (simp_all add: isLoading_of_def sampleProps_def sampleRow_def isSafeInteger_def)
  have b: "onEdit (sampleProps\<lparr>editRoute := None\<rparr>)"
    "\<not> isLoading_of (sampleProps\<lparr>editRoute := None\<rparr>)"
    "0 < length (data (sampleProps\<lparr>editRoute := None\<rparr>))"
    "safeId (row_id (data (sampleProps\<lparr>editRoute := None\<rparr>) ! 0))"
    by (simp_all add: isLoading_of_def sampleProps_def sampleRow_def isSafeInteger_def)
  show ?thesis
    using edit_click [OF a, of initialState] edit_click [OF b, of initialState]
    by (simp add: sampleProps_def sampleRow_def d)
qed

text \<open>
  Claim C6 as written navigates whenever an edit route is supplied. With the empty string
  as the route the click calls the edit callback and navigates nowhere.
\<close>

theorem empty_edit_route_counterexample:
  "editRoute (sampleProps\<lparr>editRoute := Some []\<rparr>) = Some []
   \<and> onEdit (sampleProps\<lparr>editRoute := Some []\<rparr>)
   \<and> handle (sampleProps\<lparr>editRoute := Some []\<rparr>) initialState (ClickEdit 0) =
       Some (initialState, [Call_onEdit (sampleRow 42 5)])
   \<and> handle (sampleProps\<lparr>editRoute := Some []\<rparr>) initialState (ClickEdit 0) \<noteq>
       Some (initialState, [Call_navigate ''/42''])"
  by (simp add: actionsNode_eq clickButton_def editButton_def isLoading_of_def sampleProps_def)

subsection \<open>Deleting a row\<close>

lemma deleteCalls_append: "deleteCalls (xs @ ys) = deleteCalls xs @ deleteCalls ys"
  by (induction xs rule: deleteCalls.induct) auto

lemma confirmedRows_Cons: "confirmedRows (e # es) = confirmedRows [e] @ confirmedRows es"
  by (cases e) auto

lemma deleteCalls_clickButton_editButton: "deleteCalls (clickButton (editButton p row)) = []"
  by (simp add: clickButton_def editButton_def split: option.split)

lemma dialogEvent_eq:
  "dialogEvent p s i ev =
     (if onDelete p \<and> \<not> isLoading_of p \<and> i < length (data p)
      then (case AlertDialog_step (deleteDialog p \<lparr>index = i, original = data p ! i\<rparr>)
                   (i \<in> dialogOpen s) ev of
              None \<Rightarrow> None
            | Some (isOpen, calls) \<Rightarrow>
                Some (s\<lparr>dialogOpen :=
                         (if isOpen then insert i (dialogOpen s) else dialogOpen s - {i})\<rparr>,
                      calls))
      else None)"
  by (simp add: dialogEvent_def actionsNode_eq)

lemma handle_deleteCalls:
  "handle p s e = Some (s', calls) \<Longrightarrow>
   deleteCalls calls = map (\<lambda>i. data p ! i) (confirmedRows [e])"
proof (cases e)
  case (ClickEdit i)
  assume "handle p s e = Some (s', calls)"
  then show ?thesis
    using ClickEdit
    by (auto simp: actionsNode_eq deleteCalls_clickButton_editButton split: if_splits)
next
  case (ChangeSearch v)
  assume "handle p s e = Some (s', calls)"
  then show ?thesis
    using ChangeSearch by (auto simp: searchInput_def split: if_splits)
qed (auto simp: dialogEvent_eq deleteDialog_def clickButton_def previousButton_def
    nextButton_def split: if_splits HeaderDef.splits)

lemma run_deleteCalls:
  "run p s es = Some (s', calls) \<Longrightarrow>
   deleteCalls calls = map (\<lambda>i. data p ! i) (confirmedRows es)"
proof (induction es arbitrary: s calls)
  case Nil
  then show ?case by simp
next
  case (Cons e es)
  from Cons.prems obtain s1 calls1 calls2 where
    h: "handle p s e = Some (s1, calls1)" and r: "run p s1 es = Some (s', calls2)"
    and c: "calls = calls1 @ calls2"
    by (auto split: option.splits)
  have "deleteCalls calls = deleteCalls calls1 @ deleteCalls calls2"
    by (simp add: c deleteCalls_append)
  also have "\<dots> = map (\<lambda>i. data p ! i) (confirmedRows [e])
                  @ map (\<lambda>i. data p ! i) (confirmedRows es)"
    by (simp only: handle_deleteCalls [OF h] Cons.IH [OF r])
  also have "\<dots> = map (\<lambda>i. data p ! i) (confirmedRows (e # es))"
    by (subst (2) confirmedRows_Cons) simp
  finally show ?case .
qed

lemma action_needs_open_dialog:
  "handle p s (ClickDeleteAction i) = Some x \<Longrightarrow> i \<in> dialogOpen s \<and> i < length (data p)"
  by (auto simp: dialogEvent_eq split: if_splits)

lemma dialog_opened_by_trigger:
  "handle p s e = Some (s', calls) \<Longrightarrow> i \<in> dialogOpen s' \<Longrightarrow>
   i \<in> dialogOpen s \<or> e = ClickDeleteTrigger i"
  by (cases e) (auto simp: dialogEvent_eq searchInput_def table_setSorting_useReactTable
      split: if_splits option.splits Node.splits HeaderDef.splits)

lemma run_action_after_trigger:
  "run p s es = Some (s', calls) \<Longrightarrow> k < length es \<Longrightarrow> es ! k = ClickDeleteAction i \<Longrightarrow>
   i < length (data p) \<and> (i \<in> dialogOpen s \<or> (\<exists>j<k. es ! j = ClickDeleteTrigger i))"
proof (induction es arbitrary: s calls k)
  case Nil
  then show ?case by simp
next
  case (Cons e es)
  from Cons.prems(1) obtain s1 calls1 calls2 where
    h: "handle p s e = Some (s1, calls1)" and r: "run p s1 es = Some (s', calls2)"
    by (auto split: option.splits)
  show ?case
  proof (cases k)
    case 0
    then show ?thesis
      using Cons.prems(3) h action_needs_open_dialog [of p s i] by simp
  next
    case (Suc k')
    then have "k' < length es" "es ! k' = ClickDeleteAction i"
      using Cons.prems by simp_all
    from Cons.IH [OF r this]
    have ih: "i < length (data p)"
      "i \<in> dialogOpen s1 \<or> (\<exists>j<k'. es ! j = ClickDeleteTrigger i)"
      by simp_all
    from ih(2) show ?thesis
    proof
      assume "i \<in> dialogOpen s1"
      with dialog_opened_by_trigger [OF h]
      have "i \<in> dialogOpen s \<or> e = ClickDeleteTrigger i" by simp
      then show ?thesis
        using ih(1) Suc by auto
    next
      assume "\<exists>j<k'. es ! j = ClickDeleteTrigger i"
      then obtain j where "j < k'" "es ! j = ClickDeleteTrigger i" by blast
      then have "Suc j < k \<and> (e # es) ! Suc j = ClickDeleteTrigger i"
        using Suc by simp
      then show ?thesis using ih(1) by blast
    qed
  qed
qed

text \<open>
  Claim C4: in every sequence of events on the freshly mounted component, the delete
  callback is called exactly once for each click on the affirmative control of a
  confirmation dialog, with the record of that dialog's row, and for nothing else:
  clicking the delete trigger, cancelling and dismissing call nothing. Every such
  affirmative click comes after a click on the delete trigger of the same row.
\<close>

theorem delete_needs_confirmation:
  assumes "run p initialState es = Some (s', calls)"
  shows "deleteCalls calls = map (\<lambda>i. data p ! i) (confirmedRows es)
         \<and> (\<forall>k i. k < length es \<and> es ! k = ClickDeleteAction i \<longrightarrow>
               i < length (data p) \<and> (\<exists>j<k. es ! j = ClickDeleteTrigger i))"
proof -
  have "dialogOpen initialState = {}"
    by (simp add: initialState_def)
  then show ?thesis
    using run_deleteCalls [OF assms] run_action_after_trigger [OF assms] by auto
qed


theorem delete_needs_confirmation_witness:
  "run sampleProps initialState
     [ClickDeleteTrigger 1, ClickDeleteCancel 1, ClickDeleteTrigger 1, DismissDialog 1,
      ClickDeleteTrigger 1, ClickDeleteAction 1]
     = Some (initialState, [Call_onDelete (sampleRow 7 3)])
   \<and> deleteCalls [Call_onDelete (sampleRow 7 3)] =
       map (\<lambda>i. data sampleProps ! i)
         (confirmedRows
            [ClickDeleteTrigger 1, ClickDeleteCancel 1, ClickDeleteTrigger 1, DismissDialog 1,
             ClickDeleteTrigger 1, ClickDeleteAction 1])
   \<and> run sampleProps initialState [ClickDeleteTrigger 1, ClickDeleteCancel 1]
       = Some (initialState, [])
   \<and> run sampleProps initialState [ClickDeleteAction 1] = None"
proof -
  have a: "onDelete sampleProps" "\<not> isLoading_of sampleProps"
    "length (data sampleProps) = 3" "data sampleProps ! Suc 0 = sampleRow 7 3"
    by (simp_all add: isLoading_of_def sampleProps_def)
  have r1: "run sampleProps initialState
     [ClickDeleteTrigger 1, ClickDeleteCancel 1, ClickDeleteTrigger 1, DismissDialog 1,
      ClickDeleteTrigger 1, ClickDeleteAction 1]
     = Some (initialState, [Call_onDelete (sampleRow 7 3)])"
    by (simp add: dialogEvent_eq a initialState_def deleteDialog_def)
  have r2: "run sampleProps initialState [ClickDeleteTrigger 1, ClickDeleteCancel 1]
       = Some (initialState, [])"
    by (simp add: dialogEvent_eq a initialState_def deleteDialog_def)
  have r3: "run sampleProps initialState [ClickDeleteAction 1] = None"
    by (simp add: dialogEvent_eq a initialState_def deleteDialog_def)
  show ?thesis
    using delete_needs_confirmation [OF r1] r1 r2 r3 by blast
qed

subsection \<open>Sorting from a header\<close>

lemma length_TableHeader: "length (concat (TableHeader p s)) = length (tableColumns p)"
  by (simp add: TableHeader_def tbl_columns_useReactTable)

text \<open>A sorting change that a header control asks for reaches the sorting state and
  nothing else: no callback is called and the body is rendered as before.\<close>

lemma sorting_change_keeps_body:
  "handle p s (HeaderSortingChange j updater) = Some (s', calls) \<Longrightarrow>
   sorting s' = updater (sorting s) \<and> dialogOpen s' = dialogOpen s \<and> calls = []
   \<and> TableBody p s' = TableBody p s"
  by (auto simp: table_setSorting_useReactTable TableBody_def getRowModel_useReactTable
      tbl_columns_useReactTable split: if_splits HeaderDef.splits)

text \<open>
  Claim C1 at a page with lots 5, 3, 7. With the columns of the repository, whose headers
  are strings, a click on the header of the \<open>lots\<close> column changes nothing and there is no
  control in the header that could change the sorting state. With a header renderer of
  the caller's that toggles the sorting of \<open>lots\<close>, the sorting state does change, the
  header shows it, and the rows still stand in the order 5, 3, 7, which is sorted in
  neither direction: the row model never sorts.
\<close>

theorem header_sort_leaves_rows_unsorted:
  "colId (tableColumns sampleProps ! 2) = ''lots''
   \<and> handle sampleProps initialState (ClickHeader 2) = Some (initialState, [])
   \<and> handle sampleProps initialState
         (HeaderSortingChange 2 (\<lambda>old. [\<lparr>sort_id = ''lots'', desc = True\<rparr>])) = None
   \<and> handle sortableProps initialState
         (HeaderSortingChange 0 (\<lambda>old. [\<lparr>sort_id = ''lots'', desc = True\<rparr>])) =
       Some (initialState\<lparr>sorting := [\<lparr>sort_id = ''lots'', desc = True\<rparr>]\<rparr>, [])
   \<and> children (hd (concat (TableHeader sortableProps
         (initialState\<lparr>sorting := [\<lparr>sort_id = ''lots'', desc = True\<rparr>]\<rparr>)))) =
       Content (JsString ''Lots *'')
   \<and> map (lots \<circ> original)
         (getRowModel (useReactTable sortableProps
            (initialState\<lparr>sorting := [\<lparr>sort_id = ''lots'', desc = True\<rparr>]\<rparr>))) = [5, 3, 7]
   \<and> \<not> sorted [5, 3, 7 :: real] \<and> \<not> sorted (rev [5, 3, 7 :: real])"
proof -
  have n: "length (tableColumns sampleProps) = 9"
    by (simp add: tableColumns_def sampleProps_def App_columns_def)
  have c1: "colId (tableColumns sampleProps ! 2) = ''lots''"
    and h: "header (tableColumns sampleProps ! 2) = HeaderString ''Lots''"
    by (simp_all add: tableColumns_def sampleProps_def App_columns_def)
  have c2: "handle sampleProps initialState (ClickHeader 2) = Some (initialState, [])"
    by (simp add: length_TableHeader n)
  have c3: "handle sampleProps initialState
         (HeaderSortingChange 2 (\<lambda>old. [\<lparr>sort_id = ''lots'', desc = True\<rparr>])) = None"
    by (simp add: n h)
  have cols: "tableColumns sortableProps =
      [\<lparr>colId = ''lots'',
        header = HeaderRenderer (\<lambda>srt. JsString (if srt = [] then ''Lots'' else ''Lots *'')),
        accessorFn = Some (\<lambda>r. JsNumber (lots r)), cell = None\<rparr>, actionsColumn sortableProps]"
    by (simp add: tableColumns_def sortableProps_def sampleProps_def)
  have c4: "handle sortableProps initialState
         (HeaderSortingChange 0 (\<lambda>old. [\<lparr>sort_id = ''lots'', desc = True\<rparr>])) =
       Some (initialState\<lparr>sorting := [\<lparr>sort_id = ''lots'', desc = True\<rparr>]\<rparr>, [])"
    by (simp add: cols table_setSorting_useReactTable)
  have c5: "children (hd (concat (TableHeader sortableProps
         (initialState\<lparr>sorting := [\<lparr>sort_id = ''lots'', desc = True\<rparr>]\<rparr>)))) =
       Content (JsString ''Lots *'')"
    by (simp add: TableHeader_def tbl_columns_useReactTable cols renderHeader_def)
  have "map lots (map original
         (getRowModel (useReactTable sortableProps
            (initialState\<lparr>sorting := [\<lparr>sort_id = ''lots'', desc = True\<rparr>]\<rparr>)))) = [5, 3, 7]"
    unfolding getRowModel_useReactTable original_getCoreRowModel
    by (simp add: sortableProps_def sampleProps_def sampleRow_def)
  then have c6: "map (lots \<circ> original)
         (getRowModel (useReactTable sortableProps
            (initialState\<lparr>sorting := [\<lparr>sort_id = ''lots'', desc = True\<rparr>]\<rparr>))) = [5, 3, 7]"
    by simp
  have c7: "\<not> sorted [5, 3, 7 :: real] \<and> \<not> sorted (rev [5, 3, 7 :: real])"
    by simp
  show ?thesis
    using c1 c2 c3 c4 c5 c6 c7 by blast
qed

section \<open>Properties of the fetch\<close>

lemma fetchData_cases:
  "fetchData net page =
     (case net_fetch net (fetchUrl page) of
        Inl err \<Rightarrow>
          [SetIsLoading True, Fetch (fetchUrl page),
           ConsoleError ''Error fetching data:'' err, SetIsLoading False]
      | Inr response \<Rightarrow>
          (case net_json net response of
             Inl err \<Rightarrow>
               [SetIsLoading True, Fetch (fetchUrl page),
                ConsoleError ''Error fetching data:'' err, SetIsLoading False]
           | Inr result \<Rightarrow>
               [SetIsLoading True, Fetch (fetchUrl page), SetData result,
                SetIsLoading False]))"
  by (simp add: fetchData_def split: sum.split)

lemma requests_fetchData: "requests (fetchData net page) = [fetchUrl page]"
  by (simp add: fetchData_cases split: sum.split)

lemma loadingWrites_fetchData: "loadingWrites (fetchData net page) = [True, False]"
  by (simp add: fetchData_cases split: sum.split)

lemma runOps_fetchData:
  "runOps st (fetchData net page) =
     st\<lparr>app_isLoading := False,
        app_data :=
          (case net_fetch net (fetchUrl page) of
             Inl err \<Rightarrow> app_data st
           | Inr response \<Rightarrow>
               (case net_json net response of
                  Inl err \<Rightarrow> app_data st
                | Inr result \<Rightarrow> result))\<rparr>"
  by (simp add: fetchData_cases runOps_def split: sum.split)

text \<open>
  Claim C7: mounting issues exactly one request, for page 0 with page size 10; setting
  the current page to a different value \<open>n\<close>, a safe integer, issues exactly one request,
  for page \<open>n - 1\<close> with page size 10, and setting it to the value it has issues none;
  when the request and the parsing of its body succeed, the stored rows are exactly the
  parsed array, whatever was stored before.
\<close>

theorem fetch_on_mount_and_page_change:
  "isSafeInteger n \<Longrightarrow>
   requests (snd (App_mount net)) = [''https://spicesinfo.in/auction-all/0/10'']
   \<and> (n \<noteq> app_currentPage st \<longrightarrow>
        requests (snd (setCurrentPage net n st)) =
          [''https://spicesinfo.in/auction-all/'' @ numberToString (n - 1) @ ''/10'']
        \<and> app_currentPage (fst (setCurrentPage net n st)) = n)
   \<and> (n = app_currentPage st \<longrightarrow> setCurrentPage net n st = (st, []))
   \<and> (n \<noteq> app_currentPage st
        \<and> net_fetch net (fetchUrl n) = Inr response \<and> net_json net response = Inr rows \<longrightarrow>
        app_data (fst (setCurrentPage net n st)) = rows)
   \<and> (net_fetch net (fetchUrl 1) = Inr response \<and> net_json net response = Inr rows \<longrightarrow>
        app_data (fst (App_mount net)) = rows)"
proof -
  have z: "numberToString 0 = ''0''"
    by (simp add: numberToString_def digits.simps)
  have m: "requests (snd (App_mount net)) = [''https://spicesinfo.in/auction-all/0/10'']"
    by (simp add: App_mount_def App_initial_def requests_fetchData fetchUrl_def z)
  show ?thesis
    by (simp add: m setCurrentPage_def requests_fetchData runOps_fetchData)
      (simp add: fetchUrl_def App_mount_def App_initial_def runOps_fetchData)
qed

text \<open>
  Claim C8: every fetch writes the loading flag twice, true first and false last; the
  write of true comes before the request, so the flag is set while the request is out,
  and the write of false is the last operation, so the flag is cleared at the end
  whether the fetch succeeded or failed. When the request is rejected or its body does
  not parse, the only other operation is the logging of the error, and the stored rows
  are what they were.
\<close>

theorem loading_flag_and_failure:
  "loadingWrites (fetchData net page) = [True, False]
   \<and> take 2 (fetchData net page) = [SetIsLoading True, Fetch (fetchUrl page)]
   \<and> last (fetchData net page) = SetIsLoading False
   \<and> app_isLoading (runOps st (take 1 (fetchData net page)))
   \<and> \<not> app_isLoading (runOps st (fetchData net page))
   \<and> (net_fetch net (fetchUrl page) = Inl err
        \<or> (net_fetch net (fetchUrl page) = Inr response \<and> net_json net response = Inl err)
       \<longrightarrow>
        fetchData net page =
          [SetIsLoading True, Fetch (fetchUrl page),
           ConsoleError ''Error fetching data:'' err, SetIsLoading False]
        \<and> app_data (runOps st (fetchData net page)) = app_data st)"
proof -
  have a: "take 2 (fetchData net page) = [SetIsLoading True, Fetch (fetchUrl page)]"
    by (simp add: fetchData_def)
  have b: "last (fetchData net page) = SetIsLoading False"
    by (simp add: fetchData_def)
  have c: "app_isLoading (runOps st (take 1 (fetchData net page)))"
    by (simp add: fetchData_def runOps_def)
  have d: "\<not> app_isLoading (runOps st (fetchData net page))"
    by (simp add: runOps_fetchData)
  have e: "net_fetch net (fetchUrl page) = Inl err
        \<or> (net_fetch net (fetchUrl page) = Inr response \<and> net_json net response = Inl err)
       \<longrightarrow>
        fetchData net page =
          [SetIsLoading True, Fetch (fetchUrl page),
           ConsoleError ''Error fetching data:'' err, SetIsLoading False]
        \<and> app_data (runOps st (fetchData net page)) = app_data st"
    by (auto simp: fetchData_cases runOps_def)
  show ?thesis
    using loadingWrites_fetchData a b c d e by blast
qed


subsection \<open>Sample runs\<close>

lemma sample_urls:
  "fetchUrl 3 = ''https://spicesinfo.in/auction-all/2/10''"
  "fetchUrl 4 = ''https://spicesinfo.in/auction-all/3/10''"
  "fetchUrl 5 = ''https://spicesinfo.in/auction-all/4/10''"
  by (simp_all add: fetchUrl_def numberToString_def digits.simps)

theorem fetch_on_mount_and_page_change_witness:
  "requests (snd (setCurrentPage sampleNetwork 3 sampleState)) =
     [''https://spicesinfo.in/auction-all/2/10'']
   \<and> app_currentPage (fst (setCurrentPage sampleNetwork 3 sampleState)) = 3
   \<and> app_data (fst (setCurrentPage sampleNetwork 3 sampleState)) =
       [sampleRow 1 4, sampleRow 2 6]
   \<and> setCurrentPage sampleNetwork 1 sampleState = (sampleState, [])"
proof -
  have ne: "3 \<noteq> app_currentPage sampleState" and eq: "1 = app_currentPage sampleState"
    by (simp_all add: sampleState_def)
  have d: "numberToString (3 - 1) = ''2''"
    by (simp add: numberToString_def digits.simps)
  then have d': "''https://spicesinfo.in/auction-all/'' @ numberToString (3 - 1) @ ''/10''
                 = ''https://spicesinfo.in/auction-all/2/10''"
    by (simp only: append.simps)
  have ok: "net_fetch sampleNetwork (fetchUrl 3) = Inr ''[{id:1},{id:2}]''"
    "net_json sampleNetwork ''[{id:1},{id:2}]'' = Inr [sampleRow 1 4, sampleRow 2 6]"
    by (simp_all add: sample_urls sampleNetwork_def)
  have safe: "isSafeInteger 3" "isSafeInteger 1"
    by (simp_all add: isSafeInteger_def)
  note t = fetch_on_mount_and_page_change
  have c1: "requests (snd (setCurrentPage sampleNetwork 3 sampleState)) =
     [''https://spicesinfo.in/auction-all/'' @ numberToString (3 - 1) @ ''/10'']
     \<and> app_currentPage (fst (setCurrentPage sampleNetwork 3 sampleState)) = 3"
    using t [OF safe(1), of sampleNetwork sampleState] ne by blast
  have c2: "app_data (fst (setCurrentPage sampleNetwork 3 sampleState)) =
       [sampleRow 1 4, sampleRow 2 6]"
    using t [OF safe(1), of sampleNetwork sampleState "''[{id:1},{id:2}]''"
        "[sampleRow 1 4, sampleRow 2 6]"] ne ok
    by blast
  have c3: "setCurrentPage sampleNetwork 1 sampleState = (sampleState, [])"
    using t [OF safe(2), of sampleNetwork sampleState] eq by blast
  show ?thesis
    using c1 c2 c3 unfolding d' by blast
qed

theorem loading_flag_and_failure_witness:
  "fetchData sampleNetwork 5 =
     [SetIsLoading True, Fetch ''https://spicesinfo.in/auction-all/4/10'',
      ConsoleError ''Error fetching data:'' (TypeError ''Failed to fetch''),
      SetIsLoading False]
   \<and> app_data (runOps sampleState (fetchData sampleNetwork 5)) = [sampleRow 42 5]
   \<and> \<not> app_isLoading (runOps sampleState (fetchData sampleNetwork 5))
   \<and> fetchData sampleNetwork 4 =
     [SetIsLoading True, Fetch ''https://spicesinfo.in/auction-all/3/10'',
      ConsoleError ''Error fetching data:'' (SyntaxError ''Unexpected token''),
      SetIsLoading False]
   \<and> app_data (runOps sampleState (fetchData sampleNetwork 4)) = [sampleRow 42 5]
   \<and> loadingWrites (fetchData sampleNetwork 3) = [True, False]
   \<and> app_isLoading (runOps sampleState (take 1 (fetchData sampleNetwork 3)))
   \<and> \<not> app_isLoading (runOps sampleState (fetchData sampleNetwork 3))"
proof -
  have f5: "net_fetch sampleNetwork (fetchUrl 5) = Inl (TypeError ''Failed to fetch'')"
    by (simp add: sample_urls sampleNetwork_def)
  have f4: "net_fetch sampleNetwork (fetchUrl 4) = Inr ''<html>''
            \<and> net_json sampleNetwork ''<html>'' = Inl (SyntaxError ''Unexpected token'')"
    by (simp add: sample_urls sampleNetwork_def)
  have d: "app_data sampleState = [sampleRow 42 5]"
    by (simp add: sampleState_def)
  note t = loading_flag_and_failure
  have c5: "fetchData sampleNetwork 5 =
     [SetIsLoading True, Fetch (fetchUrl 5),
      ConsoleError ''Error fetching data:'' (TypeError ''Failed to fetch''),
      SetIsLoading False]
     \<and> app_data (runOps sampleState (fetchData sampleNetwork 5)) = app_data sampleState
     \<and> \<not> app_isLoading (runOps sampleState (fetchData sampleNetwork 5))"
    using t [of sampleNetwork 5 sampleState "TypeError ''Failed to fetch''"] f5 by blast
  have c4: "fetchData sampleNetwork 4 =
     [SetIsLoading True, Fetch (fetchUrl 4),
      ConsoleError ''Error fetching data:'' (SyntaxError ''Unexpected token''),
      SetIsLoading False]
     \<and> app_data (runOps sampleState (fetchData sampleNetwork 4)) = app_data sampleState"
    using t [of sampleNetwork 4 sampleState "SyntaxError ''Unexpected token''" "''<html>''"] f4
    by blast
  have c3: "loadingWrites (fetchData sampleNetwork 3) = [True, False]
     \<and> app_isLoading (runOps sampleState (take 1 (fetchData sampleNetwork 3)))
     \<and> \<not> app_isLoading (runOps sampleState (fetchData sampleNetwork 3))"
    using t [of sampleNetwork 3 sampleState] by blast
  show ?thesis
    using c5 c4 c3 unfolding sample_urls d by blast
qed

text \<open>
  The scenario of the specification: the fetch for page 3 returns two rows; the screen
  then shows \<open>Page 3 of 10\<close> and two body rows.
\<close>

lemma page_three_scenario:
  "textContent (pagerText (App_props (fst (setCurrentPage sampleNetwork 3 sampleState))))
     = ''Page 3 of 10''
   \<and> length (TableBody (App_props (fst (setCurrentPage sampleNetwork 3 sampleState)))
               initialState) = 2"
proof -
  have ok: "net_fetch sampleNetwork (fetchUrl 3) = Inr ''[{id:1},{id:2}]''"
    "net_json sampleNetwork ''[{id:1},{id:2}]'' = Inr [sampleRow 1 4, sampleRow 2 6]"
    by (simp_all add: sample_urls sampleNetwork_def)
  have st: "fst (setCurrentPage sampleNetwork 3 sampleState) =
     \<lparr>app_data = [sampleRow 1 4, sampleRow 2 6], app_currentPage = 3,
      app_isLoading = False\<rparr>"
    by (simp add: setCurrentPage_def sampleState_def runOps_fetchData ok)
  have d: "numberToString 3 = ''3''" "numberToString 10 = ''10''"
    by (simp_all add: numberToString_def digits.simps)
  show ?thesis
    unfolding st
    by (simp add: App_props_def pagerText_def textContent_def d TableBody_def
        isLoading_of_def getRowModel_useReactTable length_getCoreRowModel)
qed

end
